theory Spec2Isabelle
  imports Main
begin

section \<open>JavaScript values\<close>

text \<open>
  The handler of \<^verbatim>\<open>src/pages/api/update-and-deploy.js\<close> works on values produced by
  \<^verbatim>\<open>request.json()\<close> and \<^verbatim>\<open>JSON.parse\<close>. A parsed JSON value is a \<open>json\<close>; the
  JavaScript value \<^verbatim>\<open>undefined\<close> (an absent field) is \<open>None\<close> of \<open>json option\<close>.

  A number is kept as the string that \<^verbatim>\<open>String()\<close> gives for it: \<open>JNum ''1''\<close> is the number
  1, \<open>JNum ''0.5''\<close> is one half, \<open>JNum ''1e+21''\<close> is ten to the power 21, and \<open>JNum ''0''\<close>
  is zero of either sign. Two parsed numbers with the same string are the same number but
  for the sign of zero, and the string is all the handler reads of a number: \<^verbatim>\<open>String()\<close>
  returns it, \<^verbatim>\<open>JSON.stringify\<close> writes it, and the number is falsy when it is \<^verbatim>\<open>0\<close>.

  A \<open>string\<close> is a sequence of code units below 256. An object is the list of its own
  properties, each key once, as the parser builds it.
\<close>

datatype json =
    JNull
  | JBool bool
  | JNum string
  | JStr string
  | JArr "json list"
  | JObj "(string \<times> json) list"

text \<open>A thrown \<^verbatim>\<open>Error\<close>: its \<^verbatim>\<open>name\<close> and its \<^verbatim>\<open>message\<close>.\<close>

datatype js_error = JsError string string

fun err_message :: "js_error \<Rightarrow> string" where
  "err_message (JsError n m) = m"

text \<open>\<^verbatim>\<open>String(err)\<close>, that is \<^verbatim>\<open>Error.prototype.toString\<close>.\<close>

fun String_error :: "js_error \<Rightarrow> string" where
  "String_error (JsError n m) =
     (if n = [] then m else if m = [] then n else n @ '': '' @ m)"

text \<open>Truthiness, as \<^verbatim>\<open>!x\<close>, \<^verbatim>\<open>x || y\<close> and \<^verbatim>\<open>x ? a : b\<close> test it.\<close>

fun truthy :: "json \<Rightarrow> bool" where
  "truthy JNull = False"
| "truthy (JBool b) = b"
| "truthy (JNum n) = (n \<noteq> ''0'')"
| "truthy (JStr s) = (s \<noteq> [])"
| "truthy (JArr xs) = True"
| "truthy (JObj kvs) = True"

fun truthy_opt :: "json option \<Rightarrow> bool" where
  "truthy_opt None = False"
| "truthy_opt (Some v) = truthy v"

text \<open>
  \<^verbatim>\<open>v.k\<close> for a key \<open>k\<close> that no prototype defines (\<^verbatim>\<open>id\<close>, \<^verbatim>\<open>action\<close>, \<^verbatim>\<open>property\<close>):
  reading a property of \<^verbatim>\<open>null\<close> throws a TypeError, a primitive or an array has no such
  property, an object gives its own one.
\<close>

definition null_read :: "string \<Rightarrow> js_error" where
  "null_read k =
     JsError ''TypeError'' (''Cannot read properties of null (reading '' @ [CHR 0x27] @ k @ [CHR 0x27] @ '')'')"

fun get_prop :: "json \<Rightarrow> string \<Rightarrow> js_error + json option" where
  "get_prop JNull k = Inl (null_read k)"
| "get_prop (JObj kvs) k = Inr (map_of kvs k)"
| "get_prop v k = Inr None"

subsection \<open>String coercion\<close>

definition cannot_convert :: js_error where
  "cannot_convert = JsError ''TypeError'' ''Cannot convert object to primitive value''"

text \<open>
  \<^verbatim>\<open>String(v)\<close>. A number gives the string that stands for it. An array is joined with commas, a \<^verbatim>\<open>null\<close> element giving the empty
  string. An object gives \<^verbatim>\<open>[object Object]\<close>, unless it has an own property
  \<^verbatim>\<open>toString\<close>: a parsed value is never callable, so the conversion to a primitive throws.
\<close>

fun String_js :: "json \<Rightarrow> js_error + string"
  and join_js :: "json list \<Rightarrow> js_error + string"
  and elem_js :: "json \<Rightarrow> js_error + string"
where
  "String_js JNull = Inr ''null''"
| "String_js (JBool b) = Inr (if b then ''true'' else ''false'')"
| "String_js (JNum n) = Inr n"
| "String_js (JStr s) = Inr s"
| "String_js (JArr xs) = join_js xs"
| "String_js (JObj kvs) =
     (if ''toString'' \<in> set (map fst kvs) then Inl cannot_convert else Inr ''[object Object]'')"
| "join_js [] = Inr ''''"
| "join_js [x] = elem_js x"
| "join_js (x # y # ys) =
     (case elem_js x of
        Inl e \<Rightarrow> Inl e
      | Inr s \<Rightarrow> (case join_js (y # ys) of Inl e \<Rightarrow> Inl e | Inr t \<Rightarrow> Inr (s @ '','' @ t)))"
| "elem_js JNull = Inr ''''"
| "elem_js (JBool b) = String_js (JBool b)"
| "elem_js (JNum n) = String_js (JNum n)"
| "elem_js (JStr s) = String_js (JStr s)"
| "elem_js (JArr xs) = String_js (JArr xs)"
| "elem_js (JObj kvs) = String_js (JObj kvs)"

text \<open>\<^verbatim>\<open>String(undefined)\<close> is \<^verbatim>\<open>undefined\<close> spelled out.\<close>

fun String_opt :: "json option \<Rightarrow> js_error + string" where
  "String_opt None = Inr ''undefined''"
| "String_opt (Some v) = String_js v"

text \<open>\<^verbatim>\<open>String(p.id)\<close>, as lines 66 and 68 evaluate it.\<close>

definition String_id :: "json \<Rightarrow> js_error + string" where
  "String_id p = (case get_prop p ''id'' of Inl e \<Rightarrow> Inl e | Inr v \<Rightarrow> String_opt v)"

subsection \<open>String methods\<close>

text \<open>\<^verbatim>\<open>s.startsWith(p)\<close>.\<close>

definition startsWith :: "string \<Rightarrow> string \<Rightarrow> bool" where
  "startsWith s p = (take (length p) s = p)"

text \<open>\<^verbatim>\<open>s.split(c)\<close> for a one-character separator: never the empty list.\<close>

fun split_js :: "string \<Rightarrow> char \<Rightarrow> string list" where
  "split_js [] c = [[]]"
| "split_js (x # xs) c =
     (if x = c then [] # split_js xs c
      else (case split_js xs c of [] \<Rightarrow> [[x]] | y # ys \<Rightarrow> (x # y) # ys))"

text \<open>\<^verbatim>\<open>xs[1]\<close>: \<^verbatim>\<open>undefined\<close> past the end.\<close>

fun index1 :: "'a list \<Rightarrow> 'a option" where
  "index1 (x # y # ys) = Some y"
| "index1 xs = None"

text \<open>
  \<^verbatim>\<open>s.trim()\<close> and \<^verbatim>\<open>s.toLowerCase()\<close> on code units below 256: the white space there
  is TAB, LF, VT, FF, CR, SP and NBSP, and the letters with a lower case are A to Z and
  U+00C0 to U+00DE without the multiplication sign U+00D7.
\<close>

definition is_space :: "char \<Rightarrow> bool" where
  "is_space c = ((of_char c :: nat) \<in> {9, 10, 11, 12, 13, 32, 160})"

definition trim :: "string \<Rightarrow> string" where
  "trim s = rev (dropWhile is_space (rev (dropWhile is_space s)))"

definition lower_char :: "char \<Rightarrow> char" where
  "lower_char c =
     (let n = (of_char c :: nat)
      in if (65 \<le> n \<and> n \<le> 90) \<or> (192 \<le> n \<and> n \<le> 222 \<and> n \<noteq> 215) then char_of (n + 32) else c)"

definition toLowerCase :: "string \<Rightarrow> string" where
  "toLowerCase s = map lower_char s"

text \<open>\<^verbatim>\<open>a || b\<close> on two values that are strings or \<^verbatim>\<open>undefined\<close>, and \<^verbatim>\<open>a || ''\<close>.\<close>

fun or_js :: "string option \<Rightarrow> string option \<Rightarrow> string option" where
  "or_js (Some a) b = (if a = [] then b else Some a)"
| "or_js None b = b"

fun or_empty :: "string option \<Rightarrow> string" where
  "or_empty (Some a) = a"
| "or_empty None = []"

section \<open>The request, the response and the services the handler calls\<close>

text \<open>
  What the handler reads of the request: the outcome of \<^verbatim>\<open>await request.json()\<close>
  (\<open>Inl\<close> when it rejects, on a body that is not JSON) and
  \<^verbatim>\<open>request.headers.get('authorization')\<close>.
\<close>

record request =
  req_json :: "js_error + json"
  req_authorization :: "string option"

text \<open>
  \<^verbatim>\<open>new Response(JSON.stringify(b), {status, headers})\<close>: the body is kept as the value
  \<open>b\<close> that is serialised.
\<close>

record response =
  resp_status :: nat
  resp_body :: json
  resp_headers :: "(string \<times> string) list"

definition error_response :: "nat \<Rightarrow> string \<Rightarrow> response" where
  "error_response st msg = \<lparr>resp_status = st, resp_body = JObj [(''error'', JStr msg)], resp_headers = []\<rparr>"

definition ok_response :: response where
  "ok_response =
     \<lparr>resp_status = 200, resp_body = JObj [(''ok'', JBool True)],
      resp_headers = [(''Content-Type'', ''application/json'')]\<rparr>"

text \<open>\<^verbatim>\<open>process.env\<close>: each variable is a string or absent.\<close>

record env =
  VITE_SUPABASE_URL :: "string option"
  SUPABASE_URL :: "string option"
  VITE_SUPABASE_ANON_KEY :: "string option"
  SUPABASE_ANON_KEY :: "string option"
  SUPABASE_SERVICE_ROLE_KEY :: "string option"
  VERCEL_DEPLOY_HOOK :: "string option"
  ADMIN_EMAILS :: "string option"

text \<open>
  The replies of the Supabase client. \<open>auth_user\<close> is \<^verbatim>\<open>userData?.user\<close>;
  \<open>download_data\<close> is the text of the downloaded Blob, \<open>None\<close> when \<^verbatim>\<open>data\<close> is null.
\<close>

record user =
  email :: "string option"

record auth_reply =
  auth_user :: "user option"
  auth_error :: "js_error option"

record storage_error =
  error_status :: "int option"
  error_message :: string

record download_reply =
  download_data :: "string option"
  download_error :: "storage_error option"

text \<open>
  Everything outside the handler: the environment, \<^verbatim>\<open>JSON.parse\<close>, and the external
  calls. \<open>getUser url key token\<close> is \<^verbatim>\<open>createClient(url, key).auth.getUser(token)\<close>,
  \<open>download url key bucket file\<close> and \<open>upload url key bucket file props\<close> are the storage
  calls of the service-role client (\<open>props\<close> is the value serialised into the Blob), and
  \<open>fetch url\<close> is the POST to the deploy hook. \<open>Inl\<close> (for \<open>fetch\<close>: \<open>Some\<close>) is a call
  that throws or rejects.
\<close>

record world =
  process_env :: env
  JSON_parse :: "string \<Rightarrow> js_error + json"
  getUser :: "string \<Rightarrow> string \<Rightarrow> string \<Rightarrow> js_error + auth_reply"
  download :: "string \<Rightarrow> string \<Rightarrow> string \<Rightarrow> string \<Rightarrow> js_error + download_reply"
  upload :: "string \<Rightarrow> string \<Rightarrow> string \<Rightarrow> string \<Rightarrow> json \<Rightarrow> js_error + storage_error option"
  fetch :: "string \<Rightarrow> js_error option"

text \<open>What the handler does to the outside, in order.\<close>

datatype effect =
    Upload string string json
  | Fetch string
  | Warn js_error

text \<open>
  A part of the handler either goes on with a value, returns a response, or throws into
  the \<^verbatim>\<open>catch\<close> of line 91.
\<close>

datatype 'a outcome = Continue 'a | Return response | Throw js_error

section \<open>The handler\<close>

subsection \<open>Lines 12 to 40: token, configuration, verification, allowlist\<close>

text \<open>
  Lines 13 and 14: the token is the second piece of the header split at spaces when the
  header starts with \<^verbatim>\<open>Bearer \<close>, and \<^verbatim>\<open>null\<close> otherwise.
\<close>

definition extract_token :: "string option \<Rightarrow> string option" where
  "extract_token h =
     (let authHeader = or_empty h
      in if startsWith authHeader ''Bearer '' then index1 (split_js authHeader CHR '' '') else None)"

text \<open>Line 24: the allowlist.\<close>

definition admin_emails :: "env \<Rightarrow> string list" where
  "admin_emails e = map (\<lambda>s. toLowerCase (trim s)) (split_js (or_empty (ADMIN_EMAILS e)) CHR '','')"

text \<open>\<^verbatim>\<open>!x\<close> on a string or \<^verbatim>\<open>undefined\<close>/\<^verbatim>\<open>null\<close>: the value is kept when it is truthy.\<close>

fun nonempty :: "string option \<Rightarrow> string option" where
  "nonempty (Some a) = (if a = [] then None else Some a)"
| "nonempty None = None"

text \<open>The part goes on with the parsed body, the storage URL and the service-role key.\<close>

definition authorize :: "world \<Rightarrow> request \<Rightarrow> (json \<times> string \<times> string) outcome" where
  "authorize w request =
     (case req_json request of
        Inl err \<Rightarrow> Throw err
      | Inr body \<Rightarrow>
          (case nonempty (extract_token (req_authorization request)) of
             None \<Rightarrow> Return (error_response 401 ''Unauthorized - missing token'')
           | Some token \<Rightarrow>
               (let e = process_env w;
                    url = or_js (VITE_SUPABASE_URL e) (SUPABASE_URL e);
                    anon = or_js (VITE_SUPABASE_ANON_KEY e) (SUPABASE_ANON_KEY e);
                    service_role = SUPABASE_SERVICE_ROLE_KEY e
                in case (nonempty url, nonempty anon, nonempty service_role) of
                     (Some u, Some a, Some s) \<Rightarrow>
                       (case getUser w u a token of
                          Inl err \<Rightarrow> Throw err
                        | Inr reply \<Rightarrow>
                            (case (auth_error reply, auth_user reply) of
                               (None, Some usr) \<Rightarrow>
                                 (let userEmail = toLowerCase (or_empty (email usr))
                                  in if userEmail \<in> set (admin_emails e) then Continue (body, u, s)
                                     else Return (error_response 403 ''Forbidden - not an admin''))
                             | _ \<Rightarrow> Return (error_response 401 ''Invalid token'')))
                   | _ \<Rightarrow> Return (error_response 500 ''Server misconfiguration''))))"

subsection \<open>Lines 43 to 57: reading the collection\<close>

definition BUCKET :: string where
  "BUCKET = ''properties''"

definition FILE :: string where
  "FILE = ''properties.json''"

text \<open>Lines 54 to 57: the text of the data, when there is data, is parsed unless it is empty.\<close>

definition parse_data :: "world \<Rightarrow> string option \<Rightarrow> json outcome" where
  "parse_data w downloadData =
     (case downloadData of
        None \<Rightarrow> Continue (JArr [])
      | Some txt \<Rightarrow>
          if txt = [] then Continue (JArr [])
          else (case JSON_parse w txt of Inl err \<Rightarrow> Throw err | Inr v \<Rightarrow> Continue v))"

text \<open>Lines 49 to 53: an error whose status is not 404 ends the request.\<close>

definition read_props :: "world \<Rightarrow> string \<Rightarrow> string \<Rightarrow> json outcome" where
  "read_props w url service_role =
     (case download w url service_role BUCKET FILE of
        Inl err \<Rightarrow> Throw err
      | Inr reply \<Rightarrow>
          (case download_error reply of
             Some downloadError \<Rightarrow>
               if error_status downloadError \<noteq> Some 404
               then Return (error_response 500
                      (''Failed to read properties.json: '' @ error_message downloadError))
               else parse_data w (download_data reply)
           | None \<Rightarrow> parse_data w (download_data reply)))"

subsection \<open>Lines 60 to 71: applying the change\<close>

text \<open>
  \<^verbatim>\<open>props.push\<close>, \<^verbatim>\<open>props.map\<close> and \<^verbatim>\<open>props.filter\<close> exist when \<open>props\<close> is an array; on
  any other parsed value the call throws.
\<close>

fun array_method :: "json \<Rightarrow> string \<Rightarrow> js_error + json list" where
  "array_method (JArr xs) m = Inr xs"
| "array_method JNull m = Inl (null_read m)"
| "array_method v m = Inl (JsError ''TypeError'' (''props.'' @ m @ '' is not a function''))"

text \<open>
  Line 66, \<^verbatim>\<open>props.map(p => String(p.id) === String(property.id) ? property : p)\<close>, and
  line 68, \<^verbatim>\<open>props.filter(p => String(p.id) !== String(property.id))\<close>: the callback runs
  on each element from the left, and the first coercion that throws ends the call.
\<close>

fun edit_props :: "json list \<Rightarrow> json \<Rightarrow> js_error + json list" where
  "edit_props [] property = Inr []"
| "edit_props (p # ps) property =
     (case String_id p of
        Inl e \<Rightarrow> Inl e
      | Inr a \<Rightarrow>
          (case String_id property of
             Inl e \<Rightarrow> Inl e
           | Inr b \<Rightarrow>
               (case edit_props ps property of
                  Inl e \<Rightarrow> Inl e
                | Inr ps' \<Rightarrow> Inr ((if a = b then property else p) # ps'))))"

fun delete_props :: "json list \<Rightarrow> json \<Rightarrow> js_error + json list" where
  "delete_props [] property = Inr []"
| "delete_props (p # ps) property =
     (case String_id p of
        Inl e \<Rightarrow> Inl e
      | Inr a \<Rightarrow>
          (case String_id property of
             Inl e \<Rightarrow> Inl e
           | Inr b \<Rightarrow>
               (case delete_props ps property of
                  Inl e \<Rightarrow> Inl e
                | Inr ps' \<Rightarrow> Inr (if a \<noteq> b then p # ps' else ps'))))"

text \<open>Line 60: destructuring \<^verbatim>\<open>null\<close> throws; any other body gives its two fields.\<close>

definition destructure_error :: js_error where
  "destructure_error =
     JsError ''TypeError''
       (''Cannot destructure property '' @ [CHR 0x27] @ ''action'' @ [CHR 0x27] @ '' of ''
        @ [CHR 0x27] @ ''body'' @ [CHR 0x27] @ '' as it is null.'')"

definition apply_change :: "json \<Rightarrow> json \<Rightarrow> json list outcome" where
  "apply_change body props =
     (case (get_prop body ''action'', get_prop body ''property'') of
        (Inr action, Inr property) \<Rightarrow>
          (case (action, property) of
             (Some a, Some pr) \<Rightarrow>
               if \<not> truthy a \<or> \<not> truthy pr then Return (error_response 400 ''Bad request'')
               else if a = JStr ''add'' then
                 (case array_method props ''push'' of
                    Inl e \<Rightarrow> Throw e
                  | Inr xs \<Rightarrow> Continue (xs @ [pr]))
               else if a = JStr ''edit'' then
                 (case array_method props ''map'' of
                    Inl e \<Rightarrow> Throw e
                  | Inr xs \<Rightarrow> (case edit_props xs pr of Inl e \<Rightarrow> Throw e | Inr ys \<Rightarrow> Continue ys))
               else if a = JStr ''delete'' then
                 (case array_method props ''filter'' of
                    Inl e \<Rightarrow> Throw e
                  | Inr xs \<Rightarrow> (case delete_props xs pr of Inl e \<Rightarrow> Throw e | Inr ys \<Rightarrow> Continue ys))
               else Return (error_response 400 ''Unknown action'')
           | _ \<Rightarrow> Return (error_response 400 ''Bad request''))
      | _ \<Rightarrow> Throw destructure_error)"

subsection \<open>Lines 74 to 90: writing back, the deploy hook, the answer\<close>

definition VERCEL_HOOK :: "env \<Rightarrow> string" where
  "VERCEL_HOOK e = or_empty (VERCEL_DEPLOY_HOOK e)"

text \<open>
  The effects are given with the response, or with the error thrown after them. A hook
  that rejects is caught at line 84 and logged.
\<close>

definition write_back :: "world \<Rightarrow> string \<Rightarrow> string \<Rightarrow> json list \<Rightarrow> effect list \<times> (js_error + response)" where
  "write_back w url service_role props =
     (case upload w url service_role BUCKET FILE (JArr props) of
        Inl err \<Rightarrow> ([Upload BUCKET FILE (JArr props)], Inl err)
      | Inr (Some uploadError) \<Rightarrow>
          ([Upload BUCKET FILE (JArr props)],
           Inr (error_response 500 (''Upload failed: '' @ error_message uploadError)))
      | Inr None \<Rightarrow>
          (let hook = VERCEL_HOOK (process_env w)
           in if hook \<noteq> [] then
                (case fetch w hook of
                   Some e \<Rightarrow> ([Upload BUCKET FILE (JArr props), Fetch hook, Warn e], Inr ok_response)
                 | None \<Rightarrow> ([Upload BUCKET FILE (JArr props), Fetch hook], Inr ok_response))
              else ([Upload BUCKET FILE (JArr props)], Inr ok_response)))"

subsection \<open>The whole handler\<close>

text \<open>Line 92: \<^verbatim>\<open>err.message || String(err)\<close> with status 500.\<close>

definition catch_all :: "js_error \<Rightarrow> response" where
  "catch_all err =
     error_response 500 (if err_message err \<noteq> [] then err_message err else String_error err)"

text \<open>\<open>POST w request\<close> is the response together with the effects, in order.\<close>

definition POST :: "world \<Rightarrow> request \<Rightarrow> response \<times> effect list" where
  "POST w request =
     (case authorize w request of
        Throw err \<Rightarrow> (catch_all err, [])
      | Return r \<Rightarrow> (r, [])
      | Continue (body, url, service_role) \<Rightarrow>
          (case read_props w url service_role of
             Throw err \<Rightarrow> (catch_all err, [])
           | Return r \<Rightarrow> (r, [])
           | Continue props \<Rightarrow>
               (case apply_change body props of
                  Throw err \<Rightarrow> (catch_all err, [])
                | Return r \<Rightarrow> (r, [])
                | Continue props' \<Rightarrow>
                    (case write_back w url service_role props' of
                       (effs, Inl err) \<Rightarrow> (catch_all err, effs)
                     | (effs, Inr r) \<Rightarrow> (r, effs)))))"

text \<open>The collections handed to \<^verbatim>\<open>upload\<close>, in order.\<close>

fun uploads :: "effect list \<Rightarrow> json list" where
  "uploads [] = []"
| "uploads (Upload b f v # es) = v # uploads es"
| "uploads (e # es) = uploads es"

section \<open>A concrete deployment\<close>

text \<open>
  An environment with every secret set, a deploy hook and two administrators; a world in
  which the token \<^verbatim>\<open>good\<close> belongs to the first administrator, the stored file has the
  text \<^verbatim>\<open>stored\<close> that parses to the given value, and upload and hook succeed.
\<close>

definition example_env :: env where
  "example_env =
     \<lparr>VITE_SUPABASE_URL = Some ''https://db.example'', SUPABASE_URL = None,
      VITE_SUPABASE_ANON_KEY = None, SUPABASE_ANON_KEY = Some ''anon'',
      SUPABASE_SERVICE_ROLE_KEY = Some ''service'',
      VERCEL_DEPLOY_HOOK = Some ''https://hook.example'',
      ADMIN_EMAILS = Some ''Admin@Example.com, owner@example.com''\<rparr>"

definition example_world :: "json \<Rightarrow> world" where
  "example_world stored =
     \<lparr>process_env = example_env,
      JSON_parse = (\<lambda>txt. if txt = ''stored'' then Inr stored
                          else Inl (JsError ''SyntaxError'' ''Unexpected token'')),
      getUser = (\<lambda>url key token.
                   if token = ''good''
                   then Inr \<lparr>auth_user = Some \<lparr>email = Some ''ADMIN@example.com''\<rparr>, auth_error = None\<rparr>
                   else Inr \<lparr>auth_user = None, auth_error = Some (JsError ''AuthApiError'' ''invalid JWT'')\<rparr>),
      download = (\<lambda>url key bucket file. Inr \<lparr>download_data = Some ''stored'', download_error = None\<rparr>),
      upload = (\<lambda>url key bucket file v. Inr None),
      fetch = (\<lambda>url. None)\<rparr>"

definition example_request :: "json \<Rightarrow> request" where
  "example_request b = \<lparr>req_json = Inr b, req_authorization = Some ''Bearer good''\<rparr>"

section \<open>How the parts compose\<close>

lemma POST_reaches_write_back:
  assumes "authorize w request = Continue (body, url, service_role)"
    and "read_props w url service_role = Continue props"
    and "apply_change body props = Continue props'"
  shows "POST w request =
           (case write_back w url service_role props' of
              (effs, Inl err) \<Rightarrow> (catch_all err, effs)
            | (effs, Inr r) \<Rightarrow> (r, effs))"
  using assms by (simp add: POST_def)

lemma POST_returns_in_apply_change:
  assumes "authorize w request = Continue (body, url, service_role)"
    and "read_props w url service_role = Continue props"
    and "apply_change body props = Return r"
  shows "POST w request = (r, [])"
  using assms by (simp add: POST_def)

lemma uploads_write_back:
  "uploads (fst (write_back w url service_role props)) = [JArr props]"
  by (simp add: write_back_def Let_def split: sum.splits option.splits)

lemma write_back_uploaded:
  assumes "upload w url service_role BUCKET FILE (JArr props) = Inr None"
  shows "snd (write_back w url service_role props) = Inr ok_response"
  using assms by (simp add: write_back_def Let_def split: option.splits)

lemma POST_uploads:
  assumes "authorize w request = Continue (body, url, service_role)"
    and "read_props w url service_role = Continue props"
    and "apply_change body props = Continue props'"
  shows "uploads (snd (POST w request)) = [JArr props']"
proof -
  obtain effs res where wb: "write_back w url service_role props' = (effs, res)"
    by (cases "write_back w url service_role props'")
  then have "uploads effs = [JArr props']"
    using uploads_write_back [of w url service_role props'] by simp
  with wb show ?thesis
    by (cases res) (simp_all add: POST_reaches_write_back [OF assms])
qed

lemma POST_ok:
  assumes "authorize w request = Continue (body, url, service_role)"
    and "read_props w url service_role = Continue props"
    and "apply_change body props = Continue props'"
    and "upload w url service_role BUCKET FILE (JArr props') = Inr None"
  shows "fst (POST w request) = ok_response"
proof -
  obtain effs res where wb: "write_back w url service_role props' = (effs, res)"
    by (cases "write_back w url service_role props'")
  then have "res = Inr ok_response"
    using write_back_uploaded [OF assms(4)] by simp
  with wb show ?thesis
    by (simp add: POST_reaches_write_back [OF assms(1-3)])
qed



text \<open>
  The coercion succeeds on every record whose \<^verbatim>\<open>id\<close> is absent, a string, a number, a
  boolean or \<^verbatim>\<open>null\<close>.
\<close>

lemma String_id_record:
  assumes "map_of kvs ''id'' \<in> {None, Some JNull} \<union> range (Some \<circ> JStr) \<union> range (Some \<circ> JNum)
             \<union> range (Some \<circ> JBool)"
  shows "\<exists>s. String_id (JObj kvs) = Inr s"
  using assms by (auto simp: String_id_def)

text \<open>
  The deploy hook has no part in the first two parts of the handler.
\<close>

lemma authorize_fetch: "authorize (w\<lparr>fetch := f\<rparr>) request = authorize w request"
  by (simp add: authorize_def Let_def split: sum.splits option.splits prod.splits)

lemma read_props_fetch: "read_props (w\<lparr>fetch := f\<rparr>) url key = read_props w url key"
  by (simp add: read_props_def parse_data_def split: sum.splits option.splits)

text \<open>
  Line 61: a field that is absent or falsy gives the 400 \<^verbatim>\<open>Bad request\<close>.
\<close>

lemma apply_change_bad_request:
  assumes "get_prop body ''action'' = Inr a"
    and "get_prop body ''property'' = Inr pr"
    and "\<not> truthy_opt a \<or> \<not> truthy_opt pr"
  shows "apply_change body props = Return (error_response 400 ''Bad request'')"
  using assms by (cases a; cases pr) (auto simp: apply_change_def)

text \<open>
  A \<^verbatim>\<open>null\<close> element makes the callback of line 66 throw.
\<close>

lemma edit_props_null_element:
  "edit_props (JNull # ps) property = Inl (null_read ''id'')"
  by (simp add: String_id_def)

text \<open>
  The statuses a request can get once it has passed the allowlist.
\<close>

lemma read_props_Return_status:
  assumes "read_props w url service_role = Return r"
  shows "resp_status r = 500"
  using assms
  by (auto simp: read_props_def parse_data_def error_response_def
           split: sum.splits option.splits if_splits)

lemma apply_change_Return_status:
  assumes "apply_change body props = Return r"
  shows "resp_status r = 400"
  using assms
  by (auto simp: apply_change_def error_response_def
           split: sum.splits option.splits if_splits)

lemma write_back_status:
  assumes "snd (write_back w url service_role props) = Inr r"
  shows "resp_status r = 200 \<or> resp_status r = 500"
  using assms
  by (auto simp: write_back_def Let_def error_response_def ok_response_def
           split: sum.splits option.splits if_splits)

lemma catch_all_status: "resp_status (catch_all err) = 500"
  by (simp add: catch_all_def error_response_def)

lemma POST_status_after_authorize:
  assumes "authorize w request = Continue (body, url, service_role)"
  shows "resp_status (fst (POST w request)) \<in> {200, 400, 500}"
proof (cases "read_props w url service_role")
  case (Continue props)
  show ?thesis
  proof (cases "apply_change body props")
    case c: (Continue props')
    obtain effs res where wb: "write_back w url service_role props' = (effs, res)"
      by (cases "write_back w url service_role props'")
    show ?thesis
    proof (cases res)
      case (Inl err)
      with wb show ?thesis
        by (simp add: POST_reaches_write_back [OF assms Continue c] catch_all_status)
    next
      case (Inr r)
      with wb have "resp_status r = 200 \<or> resp_status r = 500"
        using write_back_status [of w url service_role props' r] by simp
      with wb Inr show ?thesis
        by (auto simp: POST_reaches_write_back [OF assms Continue c])
    qed
  next
    case (Return r)
    with assms Continue show ?thesis
      by (simp add: POST_def apply_change_Return_status)
  next
    case (Throw err)
    with assms Continue show ?thesis
      by (simp add: POST_def catch_all_status)
  qed
next
  case (Return r)
  with assms show ?thesis
    by (simp add: POST_def read_props_Return_status)
next
  case (Throw err)
  with assms show ?thesis
    by (simp add: POST_def catch_all_status)
qed

section \<open>Claims\<close>

subsection \<open>Missing token\<close>

text \<open>
  C1 (as amended). For every request whose body parses as JSON and whose Authorization
  header is absent or does not start with \<^verbatim>\<open>Bearer \<close>, the handler answers 401 with
  \<^verbatim>\<open>{error:"Unauthorized - missing token"}\<close> and does nothing else, whatever the parsed body
  and the world are.
\<close>

theorem missing_token_unauthorized:
  assumes "req_json request = Inr body"
    and "req_authorization request = None \<or>
         (\<exists>h. req_authorization request = Some h \<and> \<not> startsWith h ''Bearer '')"
  shows "POST w request = (error_response 401 ''Unauthorized - missing token'', [])"
proof -
  have "extract_token (req_authorization request) = None"
    using assms(2) by (auto simp: extract_token_def startsWith_def)
  then have "authorize w request = Return (error_response 401 ''Unauthorized - missing token'')"
    using assms(1) by (simp add: authorize_def)
  then show ?thesis by (simp add: POST_def)
qed

theorem missing_token_unauthorized_witness:
  "req_json \<lparr>req_json = Inr (JObj []), req_authorization = Some ''Basic good''\<rparr> = Inr (JObj [])
   \<and> \<not> startsWith ''Basic good'' ''Bearer ''
   \<and> POST (example_world (JArr [])) \<lparr>req_json = Inr (JObj []), req_authorization = Some ''Basic good''\<rparr>
       = (error_response 401 ''Unauthorized - missing token'', [])"
  using missing_token_unauthorized
          [of "\<lparr>req_json = Inr (JObj []), req_authorization = Some ''Basic good''\<rparr>" "JObj []"
              "example_world (JArr [])"]
  by (simp add: startsWith_def)

text \<open>
  C1 as stated fails: \<^verbatim>\<open>request.json()\<close> runs at line 12, before the header is looked at,
  so a request with no Authorization header and a body that is not JSON gets the 500 of
  the \<^verbatim>\<open>catch\<close>, not the 401.
\<close>

theorem unparsable_body_counterexample:
  "req_authorization \<lparr>req_json = Inl (JsError ''SyntaxError'' ''Unexpected end of JSON input''),
                      req_authorization = None\<rparr> = None
   \<and> POST (example_world (JArr []))
        \<lparr>req_json = Inl (JsError ''SyntaxError'' ''Unexpected end of JSON input''),
         req_authorization = None\<rparr>
       = (error_response 500 ''Unexpected end of JSON input'', [])
   \<and> error_response 500 ''Unexpected end of JSON input''
       \<noteq> error_response 401 ''Unauthorized - missing token''"
  by (simp add: POST_def authorize_def catch_all_def error_response_def)

subsection \<open>The three mutations\<close>

text \<open>
  C2. For every stored array \<open>props\<close> and every property object, an authorized request
  with action \<^verbatim>\<open>add\<close> hands to the upload exactly the old collection with the property
  appended at the end (so one element more, the earlier ones in place), with no look at
  the ids; and when the upload succeeds the response is the 200 \<^verbatim>\<open>{ok:true}\<close>.
\<close>

theorem add_appends_property:
  assumes "authorize w request = Continue (body, url, service_role)"
    and "read_props w url service_role = Continue (JArr props)"
    and "get_prop body ''action'' = Inr (Some (JStr ''add''))"
    and "get_prop body ''property'' = Inr (Some (JObj kvs))"
  shows "apply_change body (JArr props) = Continue (props @ [JObj kvs])
         \<and> uploads (snd (POST w request)) = [JArr (props @ [JObj kvs])]
         \<and> (upload w url service_role BUCKET FILE (JArr (props @ [JObj kvs])) = Inr None
              \<longrightarrow> fst (POST w request) = ok_response)"
proof -
  have ch: "apply_change body (JArr props) = Continue (props @ [JObj kvs])"
    using assms(3,4) by (simp add: apply_change_def)
  show ?thesis
    using ch POST_uploads [OF assms(1,2) ch] POST_ok [OF assms(1,2) ch] by simp
qed

text \<open>
  The example of the specification: adding to the empty collection.
\<close>

theorem add_appends_property_witness:
  "authorize (example_world (JArr []))
     (example_request (JObj [(''action'', JStr ''add''),
                             (''property'', JObj [(''id'', JStr ''1''), (''title'', JStr ''A'')])]))
     = Continue (JObj [(''action'', JStr ''add''),
                       (''property'', JObj [(''id'', JStr ''1''), (''title'', JStr ''A'')])],
                 ''https://db.example'', ''service'')
   \<and> read_props (example_world (JArr [])) ''https://db.example'' ''service'' = Continue (JArr [])
   \<and> POST (example_world (JArr []))
        (example_request (JObj [(''action'', JStr ''add''),
                                (''property'', JObj [(''id'', JStr ''1''), (''title'', JStr ''A'')])]))
       = (ok_response,
          [Upload BUCKET FILE (JArr [JObj [(''id'', JStr ''1''), (''title'', JStr ''A'')]]),
           Fetch ''https://hook.example''])"
proof -
  let ?p = "[(''id'', JStr ''1''), (''title'', JStr ''A'')]"
  let ?b = "JObj [(''action'', JStr ''add''), (''property'', JObj ?p)]"
  let ?w = "example_world (JArr [])"
  have a: "authorize ?w (example_request ?b) = Continue (?b, ''https://db.example'', ''service'')"
    by code_simp
  have r: "read_props ?w ''https://db.example'' ''service'' = Continue (JArr [])"
    by code_simp
  have u: "upload ?w ''https://db.example'' ''service'' BUCKET FILE (JArr ([] @ [JObj ?p])) = Inr None"
    by (simp add: example_world_def)
  have "uploads (snd (POST ?w (example_request ?b))) = [JArr ([] @ [JObj ?p])]
        \<and> fst (POST ?w (example_request ?b)) = ok_response"
    using add_appends_property [OF a r, of ?p] u by simp
  moreover have "snd (POST ?w (example_request ?b))
                 = [Upload BUCKET FILE (JArr [JObj ?p]), Fetch ''https://hook.example'']"
    by code_simp
  ultimately show ?thesis using a r by (simp add: prod_eq_iff)
qed







subsection \<open>Rejected requests\<close>

text \<open>
  C5 (as amended). For every action value that is truthy and not \<^verbatim>\<open>add\<close>, \<^verbatim>\<open>edit\<close> or
  \<^verbatim>\<open>delete\<close>, with a truthy property, a request that has passed the allowlist and the read
  gets 400 \<^verbatim>\<open>{error:"Unknown action"}\<close> and the handler has no effect: no upload is
  attempted.
\<close>

theorem unknown_action_rejected:
  assumes "authorize w request = Continue (body, url, service_role)"
    and "read_props w url service_role = Continue props"
    and "get_prop body ''action'' = Inr (Some a)"
    and "get_prop body ''property'' = Inr (Some pr)"
    and "truthy a" and "truthy pr"
    and "a \<notin> {JStr ''add'', JStr ''edit'', JStr ''delete''}"
  shows "POST w request = (error_response 400 ''Unknown action'', [])"
proof -
  have "apply_change body props = Return (error_response 400 ''Unknown action'')"
    using assms(3-7) by (simp add: apply_change_def)
  with assms(1,2) show ?thesis by (rule POST_returns_in_apply_change)
qed

theorem unknown_action_rejected_witness:
  "truthy (JStr ''bogus'') \<and> truthy (JObj [])
   \<and> JStr ''bogus'' \<notin> {JStr ''add'', JStr ''edit'', JStr ''delete''}
   \<and> POST (example_world (JArr []))
        (example_request (JObj [(''action'', JStr ''bogus''), (''property'', JObj [])]))
       = (error_response 400 ''Unknown action'', [])"
proof -
  let ?b = "JObj [(''action'', JStr ''bogus''), (''property'', JObj [])]"
  let ?w = "example_world (JArr [])"
  have a: "authorize ?w (example_request ?b) = Continue (?b, ''https://db.example'', ''service'')"
    by code_simp
  have r: "read_props ?w ''https://db.example'' ''service'' = Continue (JArr [])"
    by code_simp
  have h1: "get_prop ?b ''action'' = Inr (Some (JStr ''bogus''))" by simp
  have h2: "get_prop ?b ''property'' = Inr (Some (JObj []))" by simp
  have h3: "truthy (JStr ''bogus'')" by simp
  have h4: "truthy (JObj [])" by simp
  have h5: "JStr ''bogus'' \<notin> {JStr ''add'', JStr ''edit'', JStr ''delete''}" by simp
  show ?thesis
    using unknown_action_rejected [OF a r h1 h2 h3 h4 h5] h3 h4 h5 by simp
qed

text \<open>
  C5 as stated fails: the empty string is an action value that is present and is none
  of the three, and line 61 answers it with \<^verbatim>\<open>Bad request\<close>, not \<^verbatim>\<open>Unknown action\<close>.
\<close>

theorem empty_action_counterexample:
  "get_prop (JObj [(''action'', JStr ''''), (''property'', JObj [])]) ''action'' = Inr (Some (JStr ''''))
   \<and> get_prop (JObj [(''action'', JStr ''''), (''property'', JObj [])]) ''property'' = Inr (Some (JObj []))
   \<and> JStr '''' \<notin> {JStr ''add'', JStr ''edit'', JStr ''delete''}
   \<and> POST (example_world (JArr []))
        (example_request (JObj [(''action'', JStr ''''), (''property'', JObj [])]))
       = (error_response 400 ''Bad request'', [])
   \<and> error_response 400 ''Bad request'' \<noteq> error_response 400 ''Unknown action''"
proof -
  let ?b = "JObj [(''action'', JStr ''''), (''property'', JObj [])]"
  have "POST (example_world (JArr [])) (example_request ?b) = (error_response 400 ''Bad request'', [])"
    by code_simp
  then show ?thesis by (simp add: error_response_def)
qed

text \<open>
  C10. Line 61 tests truthiness: when the action or the property is present but is
  \<^verbatim>\<open>null\<close>, \<^verbatim>\<open>false\<close>, \<^verbatim>\<open>0\<close> or the empty string, a request that has passed the
  allowlist and the read gets 400 \<^verbatim>\<open>{error:"Bad request"}\<close> with no effect, so no upload;
  and any body in which one of the two fields is missing is treated the same.
\<close>

theorem falsy_field_bad_request:
  assumes "authorize w request = Continue (body, url, service_role)"
    and "read_props w url service_role = Continue props"
    and "get_prop body ''action'' = Inr a"
    and "get_prop body ''property'' = Inr pr"
    and "(\<exists>v. a = Some v \<and> v \<in> {JNull, JBool False, JNum ''0'', JStr ''''})
         \<or> (\<exists>v. pr = Some v \<and> v \<in> {JNull, JBool False, JNum ''0'', JStr ''''})"
  shows "POST w request = (error_response 400 ''Bad request'', [])
         \<and> (\<forall>body'. get_prop body' ''action'' = Inr None \<or> get_prop body' ''property'' = Inr None
               \<longrightarrow> apply_change body' props = apply_change body props)"
proof -
  have falsy: "\<not> truthy_opt a \<or> \<not> truthy_opt pr"
    using assms(5) by auto
  have bad: "apply_change body props = Return (error_response 400 ''Bad request'')"
    using assms(3,4) falsy by (rule apply_change_bad_request)
  have missing: "apply_change body' props = Return (error_response 400 ''Bad request'')"
    if "get_prop body' ''action'' = Inr None \<or> get_prop body' ''property'' = Inr None" for body'
  proof (cases body')
    case JNull
    with that show ?thesis by simp
  next
    case (JObj kvs)
    then have "\<exists>x y. get_prop body' ''action'' = Inr x \<and> get_prop body' ''property'' = Inr y
                 \<and> (\<not> truthy_opt x \<or> \<not> truthy_opt y)"
      using that by auto
    then show ?thesis using apply_change_bad_request by blast
  qed (simp_all add: apply_change_def)
  show ?thesis
    using POST_returns_in_apply_change [OF assms(1,2) bad] bad missing by simp
qed

theorem falsy_field_bad_request_witness:
  "JNum ''0'' \<in> {JNull, JBool False, JNum ''0'', JStr ''''}
   \<and> POST (example_world (JArr []))
        (example_request (JObj [(''action'', JStr ''add''), (''property'', JNum ''0'')]))
       = (error_response 400 ''Bad request'', [])
   \<and> apply_change (JObj [(''action'', JStr ''add'')]) (JArr [])
       = apply_change (JObj [(''action'', JStr ''add''), (''property'', JNum ''0'')]) (JArr [])"
proof -
  let ?b = "JObj [(''action'', JStr ''add''), (''property'', JNum ''0'')]"
  let ?w = "example_world (JArr [])"
  have a: "authorize ?w (example_request ?b) = Continue (?b, ''https://db.example'', ''service'')"
    by code_simp
  have r: "read_props ?w ''https://db.example'' ''service'' = Continue (JArr [])"
    by code_simp
  have h1: "get_prop ?b ''action'' = Inr (Some (JStr ''add''))" by simp
  have h2: "get_prop ?b ''property'' = Inr (Some (JNum ''0''))" by simp
  have h3: "(\<exists>v. Some (JStr ''add'') = Some v \<and> v \<in> {JNull, JBool False, JNum ''0'', JStr ''''})
         \<or> (\<exists>v. Some (JNum ''0'') = Some v \<and> v \<in> {JNull, JBool False, JNum ''0'', JStr ''''})" by simp
  have m: "get_prop (JObj [(''action'', JStr ''add'')]) ''action'' = Inr None
           \<or> get_prop (JObj [(''action'', JStr ''add'')]) ''property'' = Inr None" by simp
  show ?thesis
    using falsy_field_bad_request [OF a r h1 h2 h3] m by blast
qed

subsection \<open>Reading the collection and the deploy hook\<close>

text \<open>
  C7. When the download answers with an error of status 404 and no data, or with an
  empty text, the collection is \<^verbatim>\<open>[]\<close> and the handler goes on. Every other download
  error (a status that is not 404, or none) ends the request with 500 and the error
  \<^verbatim>\<open>Failed to read properties.json: \<close> followed by the provider's message, with no effect:
  no mutation and no upload.
\<close>

theorem read_props_not_found_or_empty:
  assumes "download w url service_role BUCKET FILE = Inr reply"
  shows "(download_error reply = Some e \<and> error_status e = Some 404 \<and> download_data reply = None
            \<longrightarrow> read_props w url service_role = Continue (JArr []))
         \<and> ((\<forall>e'. download_error reply = Some e' \<longrightarrow> error_status e' = Some 404)
              \<and> download_data reply = Some ''''
            \<longrightarrow> read_props w url service_role = Continue (JArr []))
         \<and> (download_error reply = Some e \<and> error_status e \<noteq> Some 404
            \<longrightarrow> read_props w url service_role
                  = Return (error_response 500 (''Failed to read properties.json: '' @ error_message e))
                \<and> (authorize w request = Continue (body, url, service_role)
                     \<longrightarrow> POST w request
                           = (error_response 500 (''Failed to read properties.json: '' @ error_message e), [])))"
proof -
  have nf: "read_props w url service_role = Continue (JArr [])"
    if "download_error reply = Some e" "error_status e = Some 404" "download_data reply = None"
    using assms that by (simp add: read_props_def parse_data_def)
  have em: "read_props w url service_role = Continue (JArr [])"
    if "\<forall>e'. download_error reply = Some e' \<longrightarrow> error_status e' = Some 404"
      and "download_data reply = Some ''''"
    using assms that by (cases "download_error reply") (simp_all add: read_props_def parse_data_def)
  have fatal: "read_props w url service_role
                 = Return (error_response 500 (''Failed to read properties.json: '' @ error_message e))"
    if "download_error reply = Some e" "error_status e \<noteq> Some 404"
    using assms that by (simp add: read_props_def)
  have stop: "POST w request
                = (error_response 500 (''Failed to read properties.json: '' @ error_message e), [])"
    if "download_error reply = Some e" "error_status e \<noteq> Some 404"
      and "authorize w request = Continue (body, url, service_role)"
    using fatal [OF that(1,2)] that(3) by (simp add: POST_def)
  show ?thesis
    using nf em fatal stop by blast
qed

theorem read_props_not_found_or_empty_witness:
  "read_props
     ((example_world JNull)
        \<lparr>download := (\<lambda>url key bucket file.
            Inr \<lparr>download_data = None,
                 download_error = Some \<lparr>error_status = Some 404, error_message = ''Object not found''\<rparr>\<rparr>)\<rparr>)
     ''https://db.example'' ''service'' = Continue (JArr [])
   \<and> read_props
     ((example_world JNull)
        \<lparr>download := (\<lambda>url key bucket file. Inr \<lparr>download_data = Some '''', download_error = None\<rparr>)\<rparr>)
     ''https://db.example'' ''service'' = Continue (JArr [])
   \<and> POST
     ((example_world JNull)
        \<lparr>download := (\<lambda>url key bucket file.
            Inr \<lparr>download_data = None,
                 download_error = Some \<lparr>error_status = Some 503, error_message = ''unavailable''\<rparr>\<rparr>)\<rparr>)
     (example_request (JObj [(''action'', JStr ''add''), (''property'', JObj [])]))
     = (error_response 500 ''Failed to read properties.json: unavailable'', [])"
proof -
  let ?nf = "\<lparr>download_data = None,
              download_error = Some \<lparr>error_status = Some 404, error_message = ''Object not found''\<rparr>\<rparr>"
  let ?em = "\<lparr>download_data = Some '''', download_error = None :: storage_error option\<rparr>"
  let ?un = "\<lparr>download_data = None,
              download_error = Some \<lparr>error_status = Some 503, error_message = ''unavailable''\<rparr>\<rparr>"
  let ?w = "\<lambda>reply. (example_world JNull)\<lparr>download := (\<lambda>url key bucket file. Inr reply)\<rparr>"
  let ?b = "JObj [(''action'', JStr ''add''), (''property'', JObj [])]"
  have d: "download (?w reply) ''https://db.example'' ''service'' BUCKET FILE = Inr reply" for reply
    by simp
  have a: "authorize (?w ?un) (example_request ?b) = Continue (?b, ''https://db.example'', ''service'')"
    by code_simp
  have "read_props (?w ?nf) ''https://db.example'' ''service'' = Continue (JArr [])"
    using read_props_not_found_or_empty
            [OF d [of ?nf], of "\<lparr>error_status = Some 404, error_message = ''Object not found''\<rparr>"]
    by simp
  moreover have "read_props (?w ?em) ''https://db.example'' ''service'' = Continue (JArr [])"
    using read_props_not_found_or_empty [OF d [of ?em]] by simp
  moreover have "POST (?w ?un) (example_request ?b)
                   = (error_response 500 ''Failed to read properties.json: unavailable'', [])"
    using read_props_not_found_or_empty
            [OF d [of ?un], of "\<lparr>error_status = Some 503, error_message = ''unavailable''\<rparr>"
               "example_request ?b" ?b] a
    by simp
  ultimately show ?thesis by simp
qed

text \<open>
  C8. For a request whose mutation is applied and whose upload succeeds, the response is
  200 \<^verbatim>\<open>{ok:true}\<close> whatever the POST to the deploy hook does (\<open>f\<close> is any behaviour of
  \<^verbatim>\<open>fetch\<close>) and whether or not a hook is configured; when a hook is configured and the
  POST throws, the error is caught and logged after the upload and the hook call.
\<close>

theorem hook_failure_ignored:
  assumes "authorize w request = Continue (body, url, service_role)"
    and "read_props w url service_role = Continue props"
    and "apply_change body props = Continue props'"
    and "upload w url service_role BUCKET FILE (JArr props') = Inr None"
  shows "fst (POST (w\<lparr>fetch := f\<rparr>) request) = ok_response
         \<and> (VERCEL_HOOK (process_env w) \<noteq> [] \<and> f (VERCEL_HOOK (process_env w)) = Some err
              \<longrightarrow> snd (POST (w\<lparr>fetch := f\<rparr>) request)
                    = [Upload BUCKET FILE (JArr props'), Fetch (VERCEL_HOOK (process_env w)), Warn err])"
proof -
  let ?w = "w\<lparr>fetch := f\<rparr>"
  have a: "authorize ?w request = Continue (body, url, service_role)"
    using assms(1) by (simp add: authorize_fetch)
  have r: "read_props ?w url service_role = Continue props"
    using assms(2) by (simp add: read_props_fetch)
  have u: "upload ?w url service_role BUCKET FILE (JArr props') = Inr None"
    using assms(4) by simp
  have ok: "fst (POST ?w request) = ok_response"
    using a r assms(3) u by (rule POST_ok)
  have logged: "snd (POST ?w request)
                  = [Upload BUCKET FILE (JArr props'), Fetch (VERCEL_HOOK (process_env w)), Warn err]"
    if "VERCEL_HOOK (process_env w) \<noteq> []" "f (VERCEL_HOOK (process_env w)) = Some err"
    using that u by (simp add: POST_reaches_write_back [OF a r assms(3)] write_back_def)
  show ?thesis
    using ok logged by blast
qed

theorem hook_failure_ignored_witness:
  "POST ((example_world (JArr []))\<lparr>fetch := (\<lambda>url. Some (JsError ''TypeError'' ''fetch failed''))\<rparr>)
     (example_request (JObj [(''action'', JStr ''add''), (''property'', JObj [(''id'', JNum ''5'')])]))
   = (ok_response,
      [Upload BUCKET FILE (JArr [JObj [(''id'', JNum ''5'')]]), Fetch ''https://hook.example'',
       Warn (JsError ''TypeError'' ''fetch failed'')])
   \<and> fst (POST (example_world (JArr []))
        (example_request (JObj [(''action'', JStr ''add''), (''property'', JObj [(''id'', JNum ''5'')])])))
     = ok_response"
proof -
  let ?b = "JObj [(''action'', JStr ''add''), (''property'', JObj [(''id'', JNum ''5'')])]"
  let ?w = "example_world (JArr [])"
  let ?f = "\<lambda>url::string. Some (JsError ''TypeError'' ''fetch failed'')"
  have a: "authorize ?w (example_request ?b) = Continue (?b, ''https://db.example'', ''service'')"
    by code_simp
  have r: "read_props ?w ''https://db.example'' ''service'' = Continue (JArr [])"
    by code_simp
  have c: "apply_change ?b (JArr []) = Continue [JObj [(''id'', JNum ''5'')]]"
    by (simp add: apply_change_def)
  have u: "upload ?w ''https://db.example'' ''service'' BUCKET FILE (JArr [JObj [(''id'', JNum ''5'')]]) = Inr None"
    by (simp add: example_world_def)
  have h: "VERCEL_HOOK (process_env ?w) = ''https://hook.example''"
    by (simp add: example_world_def example_env_def VERCEL_HOOK_def)
  have "fst (POST (?w\<lparr>fetch := ?f\<rparr>) (example_request ?b)) = ok_response
        \<and> snd (POST (?w\<lparr>fetch := ?f\<rparr>) (example_request ?b))
           = [Upload BUCKET FILE (JArr [JObj [(''id'', JNum ''5'')]]), Fetch ''https://hook.example'',
              Warn (JsError ''TypeError'' ''fetch failed'')]"
    using hook_failure_ignored [OF a r c u, of ?f "JsError ''TypeError'' ''fetch failed''"] h by simp
  moreover have "fst (POST ?w (example_request ?b)) = ok_response"
    using a r c u by (rule POST_ok)
  ultimately show ?thesis by (simp add: prod_eq_iff)
qed

subsection \<open>The allowlist\<close>

text \<open>
  C9. When \<^verbatim>\<open>ADMIN_EMAILS\<close> is absent or the empty string, the allowlist is the list
  with the empty string as its one element, so a verified user with no email passes line
  38: the request is not answered 403, goes on to the read, and the collection it changes
  is handed to the upload.
\<close>

theorem empty_allowlist_admits_missing_email:
  assumes "ADMIN_EMAILS (process_env w) = None \<or> ADMIN_EMAILS (process_env w) = Some ''''"
    and "req_json request = Inr body"
    and "nonempty (extract_token (req_authorization request)) = Some token"
    and "nonempty (or_js (VITE_SUPABASE_URL (process_env w)) (SUPABASE_URL (process_env w))) = Some u"
    and "nonempty (or_js (VITE_SUPABASE_ANON_KEY (process_env w)) (SUPABASE_ANON_KEY (process_env w)))
           = Some a"
    and "nonempty (SUPABASE_SERVICE_ROLE_KEY (process_env w)) = Some s"
    and "getUser w u a token = Inr reply"
    and "auth_error reply = None"
    and "auth_user reply = Some usr"
    and "email usr = None"
  shows "admin_emails (process_env w) = ['''']
         \<and> authorize w request = Continue (body, u, s)
         \<and> resp_status (fst (POST w request)) \<noteq> 403
         \<and> (read_props w u s = Continue props \<and> apply_change body props = Continue props'
              \<longrightarrow> uploads (snd (POST w request)) = [JArr props'])"
proof -
  have allow: "admin_emails (process_env w) = ['''']"
    using assms(1) by (auto simp: admin_emails_def trim_def toLowerCase_def)
  have auth: "authorize w request = Continue (body, u, s)"
    using assms(2-10) allow by (simp add: authorize_def toLowerCase_def)
  have "resp_status (fst (POST w request)) \<in> {200, 400, 500}"
    using auth by (rule POST_status_after_authorize)
  then have no403: "resp_status (fst (POST w request)) \<noteq> 403"
    by auto
  have mut: "uploads (snd (POST w request)) = [JArr props']"
    if "read_props w u s = Continue props" "apply_change body props = Continue props'"
    using auth that by (rule POST_uploads)
  show ?thesis
    using allow auth no403 mut by blast
qed

theorem empty_allowlist_admits_missing_email_witness:
  "admin_emails (example_env\<lparr>ADMIN_EMAILS := None\<rparr>) = ['''']
   \<and> POST ((example_world (JArr []))
             \<lparr>process_env := example_env\<lparr>ADMIN_EMAILS := None\<rparr>,
              getUser := (\<lambda>url key token. Inr \<lparr>auth_user = Some \<lparr>email = None\<rparr>, auth_error = None\<rparr>)\<rparr>)
        (example_request (JObj [(''action'', JStr ''add''), (''property'', JObj [(''id'', JNum ''5'')])]))
     = (ok_response,
        [Upload BUCKET FILE (JArr [JObj [(''id'', JNum ''5'')]]), Fetch ''https://hook.example''])"
proof -
  let ?b = "JObj [(''action'', JStr ''add''), (''property'', JObj [(''id'', JNum ''5'')])]"
  let ?e = "example_env\<lparr>ADMIN_EMAILS := None\<rparr>"
  let ?reply = "\<lparr>auth_user = Some \<lparr>email = None\<rparr>, auth_error = None :: js_error option\<rparr>"
  let ?w = "(example_world (JArr []))
             \<lparr>process_env := ?e, getUser := (\<lambda>url key token. Inr ?reply)\<rparr>"
  let ?r = "example_request ?b"
  have h1: "ADMIN_EMAILS (process_env ?w) = None \<or> ADMIN_EMAILS (process_env ?w) = Some ''''"
    by simp
  have h2: "req_json ?r = Inr ?b"
    by (simp add: example_request_def)
  have h3: "nonempty (extract_token (req_authorization ?r)) = Some ''good''"
    by (simp add: example_request_def extract_token_def startsWith_def)
  have h4: "nonempty (or_js (VITE_SUPABASE_URL (process_env ?w)) (SUPABASE_URL (process_env ?w)))
              = Some ''https://db.example''"
    by (simp add: example_env_def)
  have h5: "nonempty (or_js (VITE_SUPABASE_ANON_KEY (process_env ?w)) (SUPABASE_ANON_KEY (process_env ?w)))
              = Some ''anon''"
    by (simp add: example_env_def)
  have h6: "nonempty (SUPABASE_SERVICE_ROLE_KEY (process_env ?w)) = Some ''service''"
    by (simp add: example_env_def)
  have h7: "getUser ?w ''https://db.example'' ''anon'' ''good'' = Inr ?reply"
    by simp
  have h8: "auth_error ?reply = None" by simp
  have h9: "auth_user ?reply = Some \<lparr>email = None\<rparr>" by simp
  have h10: "email \<lparr>email = None\<rparr> = None" by simp
  have allow: "admin_emails ?e = ['''']"
    and auth: "authorize ?w ?r = Continue (?b, ''https://db.example'', ''service'')"
    using empty_allowlist_admits_missing_email [OF h1 h2 h3 h4 h5 h6 h7 h8 h9 h10] by simp_all
  have "POST ?w ?r = (ok_response,
          [Upload BUCKET FILE (JArr [JObj [(''id'', JNum ''5'')]]), Fetch ''https://hook.example''])"
    using auth
    by (simp add: POST_def read_props_def parse_data_def example_world_def apply_change_def
          write_back_def VERCEL_HOOK_def example_env_def BUCKET_def FILE_def)
  with allow show ?thesis by simp
qed

end
